theory Spec2Isabelle
  imports Main "HOL-Library.Sublist"
begin

section \<open>JavaScript numbers and strings\<close>

text \<open>
  The converters of redis-om print numbers with \<^verbatim>\<open>Number.prototype.toString\<close> and read
  them back with \<^verbatim>\<open>Number.parseFloat\<close> and \<^verbatim>\<open>Number.parseInt\<close>. These are built-ins of
  the language, modelled here after ECMA-262.

  A finite number is modelled by the decimal \<open>m * 10 ^ e\<close> that \<^verbatim>\<open>Number::toString\<close>
  prints for it (its shortest round-tripping decimal: the digits \<open>s\<close> and the exponent
  \<open>n - k\<close> of ECMA-262 6.1.6.1.20), in canonical form: \<open>m\<close> has no trailing zero, and zero
  is \<open>Finite 0 0\<close>. The two zeros of IEEE 754 are identified, as \<^verbatim>\<open>===\<close> identifies them.
  Parsing yields the exact decimal value of the literal: the rounding of a literal to the
  nearest double (which matters beyond 15 significant digits or outside the range of a
  double) is not modelled.

  A string is a list of 8-bit characters, standing for a sequence of code units below 256.
\<close>

datatype number = NaN | PInfinity | NInfinity | Finite int int

function decimal :: "int \<Rightarrow> int \<Rightarrow> number" where
  "decimal m e =
     (if m = 0 then Finite 0 0
      else if m mod 10 = 0 then decimal (m div 10) (e + 1)
      else Finite m e)"
  by pat_completeness auto
termination
  by (relation "measure (\<lambda>(m, e). nat \<bar>m\<bar>)") auto


definition isDigit :: "char \<Rightarrow> bool" where
  "isDigit c = (48 \<le> (of_char c :: nat) \<and> (of_char c :: nat) \<le> 57)"

definition digit_char :: "nat \<Rightarrow> char" where
  "digit_char d = ''0123456789'' ! d"

definition digit_value :: "char \<Rightarrow> nat" where
  "digit_value c = of_char c - 48"

text \<open>The decimal digits of a natural number, most significant first.\<close>

function digits :: "nat \<Rightarrow> string" where
  "digits n = (if n < 10 then [digit_char n] else digits (n div 10) @ [digit_char (n mod 10)])"
  by pat_completeness auto
termination
  by (relation "measure id") auto

definition digits_value :: "string \<Rightarrow> nat" where
  "digits_value ds = foldl (\<lambda>a c. 10 * a + digit_value c) 0 ds"

text \<open>
  \<^verbatim>\<open>Number::toString(x)\<close> for a positive finite \<open>x = s * 10 ^ e\<close>, steps 5 to 10 of
  ECMA-262 6.1.6.1.20: \<open>k\<close> is the number of digits of \<open>s\<close> and \<open>n = e + k\<close>.
\<close>

definition positive_toString :: "nat \<Rightarrow> int \<Rightarrow> string" where
  "positive_toString s e =
     (let ds = digits s; k = int (length ds); n = e + k in
      if k \<le> n \<and> n \<le> 21 then ds @ replicate (nat (n - k)) (CHR ''0'')
      else if 0 < n \<and> n \<le> 21 then take (nat n) ds @ ''.'' @ drop (nat n) ds
      else if - 6 < n \<and> n \<le> 0 then ''0.'' @ replicate (nat (- n)) (CHR ''0'') @ ds
      else
        (let ex = n - 1; c = (if ex < 0 then ''-'' else ''+''); exs = digits (nat \<bar>ex\<bar>) in
         if k = 1 then ds @ ''e'' @ c @ exs
         else take 1 ds @ ''.'' @ drop 1 ds @ ''e'' @ c @ exs))"

fun Number_toString :: "number \<Rightarrow> string" where
  "Number_toString NaN = ''NaN''"
| "Number_toString PInfinity = ''Infinity''"
| "Number_toString NInfinity = ''-Infinity''"
| "Number_toString (Finite m e) =
     (if m = 0 then ''0''
      else if m < 0 then ''-'' @ positive_toString (nat (- m)) e
      else positive_toString (nat m) e)"

text \<open>
  White space that \<^verbatim>\<open>parseFloat\<close> and \<^verbatim>\<open>parseInt\<close> skip (TrimString, start): TAB, LF, VT,
  FF, CR, SP and NBSP are the white space and line terminator code units below 256.
\<close>

definition isWhiteSpace :: "char \<Rightarrow> bool" where
  "isWhiteSpace c = ((of_char c :: nat) \<in> {9, 10, 11, 12, 13, 32, 160})"

definition trimStart :: "string \<Rightarrow> string" where
  "trimStart s = dropWhile isWhiteSpace s"

fun parseSign :: "string \<Rightarrow> bool \<times> string" where
  "parseSign [] = (False, [])"
| "parseSign (c # s) =
     (if c = CHR ''-'' then (True, s) else if c = CHR ''+'' then (False, s) else (False, c # s))"

text \<open>The value of the ExponentPart that starts the string, 0 when there is none.\<close>

definition parseExponent :: "string \<Rightarrow> int" where
  "parseExponent r =
     (case r of
        [] \<Rightarrow> 0
      | c # r' \<Rightarrow>
          if c = CHR ''e'' \<or> c = CHR ''E'' then
            (case parseSign r' of (neg, r'') \<Rightarrow>
               (let ds = takeWhile isDigit r'' in
                if ds = [] then 0
                else if neg then - int (digits_value ds) else int (digits_value ds)))
          else 0)"

text \<open>
  The longest prefix that is a StrUnsignedDecimalLiteral other than \<^verbatim>\<open>Infinity\<close>
  (digits, an optional fraction, an optional exponent), as mantissa and exponent; \<open>None\<close>
  when no prefix is one.
\<close>

definition parseUnsigned :: "string \<Rightarrow> (nat \<times> int) option" where
  "parseUnsigned u =
     (let ip = takeWhile isDigit u; r1 = dropWhile isDigit u;
          dot = (case r1 of [] \<Rightarrow> False | c # _ \<Rightarrow> c = CHR ''.'');
          fp = (if dot then takeWhile isDigit (tl r1) else []);
          r2 = (if dot then dropWhile isDigit (tl r1) else r1)
      in if ip = [] \<and> fp = [] then None
         else Some (digits_value (ip @ fp), parseExponent r2 - int (length fp)))"

text \<open>\<^verbatim>\<open>Number.parseFloat(string)\<close>, ECMA-262 19.2.4.\<close>

definition parseFloat :: "string \<Rightarrow> number" where
  "parseFloat s =
     (case parseSign (trimStart s) of (neg, u) \<Rightarrow>
        if prefix ''Infinity'' u then (if neg then NInfinity else PInfinity)
        else
          (case parseUnsigned u of
             None \<Rightarrow> NaN
           | Some (m, e) \<Rightarrow> decimal (if neg then - int m else int m) e))"

definition isHexDigit :: "char \<Rightarrow> bool" where
  "isHexDigit c = (c \<in> set ''0123456789abcdefABCDEF'')"

definition hex_digit_value :: "char \<Rightarrow> nat" where
  "hex_digit_value c =
     (if isDigit c then of_char c - 48
      else if c \<in> set ''abcdef'' then of_char c - 87
      else of_char c - 55)"

definition hex_digits_value :: "string \<Rightarrow> nat" where
  "hex_digits_value ds = foldl (\<lambda>a c. 16 * a + hex_digit_value c) 0 ds"

text \<open>
  \<^verbatim>\<open>Number.parseInt(string)\<close> with no radix, ECMA-262 19.2.5: the radix is 10, or 16 after
  a prefix \<^verbatim>\<open>0x\<close> or \<^verbatim>\<open>0X\<close>.
\<close>

definition parseInt :: "string \<Rightarrow> number" where
  "parseInt s =
     (case parseSign (trimStart s) of (neg, u) \<Rightarrow>
        (let hex = (prefix ''0x'' u \<or> prefix ''0X'' u);
             z = (if hex then takeWhile isHexDigit (drop 2 u) else takeWhile isDigit u)
         in if z = [] then NaN
            else
              (let v = int (if hex then hex_digits_value z else digits_value z)
               in decimal (if neg then - v else v) 0)))"

text \<open>
  \<^verbatim>\<open>TimeClip\<close>, ECMA-262 21.4.1.31, which \<^verbatim>\<open>Date.prototype.setTime\<close> applies: not a number
  beyond 8.64e15 milliseconds, truncated to an integer otherwise.
\<close>

definition TimeClip :: "number \<Rightarrow> number" where
  "TimeClip t =
     (case t of
        Finite m e \<Rightarrow>
          (if 0 \<le> e then
             (if 8640000000000000 < \<bar>m\<bar> * 10 ^ nat e then NaN else decimal (m * 10 ^ nat e) 0)
           else
             (if 8640000000000000 * 10 ^ nat (- e) < \<bar>m\<bar> then NaN
              else decimal (sgn m * (\<bar>m\<bar> div 10 ^ nat (- e))) 0))
      | _ \<Rightarrow> NaN)"

text \<open>\<^verbatim>\<open>Array.prototype.join\<close> on an array of strings.\<close>

fun join :: "string list \<Rightarrow> string \<Rightarrow> string" where
  "join [] sep = []"
| "join [x] sep = x"
| "join (x # y # ys) sep = x @ sep @ join (y # ys) sep"

text \<open>
  \<^verbatim>\<open>String.prototype.split\<close> with a string separator and no limit. With a non-empty
  separator the string is cut at each occurrence, found from left to right; \<open>cur\<close> is the
  piece read so far. With the empty separator the string is cut into its code units.
\<close>

function split_from :: "string \<Rightarrow> string \<Rightarrow> string \<Rightarrow> string list" where
  "split_from sep cur [] = [cur]"
| "split_from sep cur (c # s) =
     (if sep \<noteq> [] \<and> prefix sep (c # s)
      then cur # split_from sep [] (drop (length sep) (c # s))
      else split_from sep (cur @ [c]) s)"
  by pat_completeness auto
termination
  by (relation "measure (\<lambda>(sep, cur, s). length s)") auto

definition split :: "string \<Rightarrow> string \<Rightarrow> string list" where
  "split s sep = (if sep = [] then map (\<lambda>c. [c]) s else split_from sep [] s)"

definition quote :: "string \<Rightarrow> string" where
  "quote s = [CHR 0x27] @ s @ [CHR 0x27]"

section \<open>Values, field definitions and errors\<close>

text \<open>
  The values that entity data, hash data and JSON data hold. A \<^verbatim>\<open>Date\<close> is its time value
  (\<open>NaN\<close> for an invalid date); a plain object is the list of its own properties, in
  order, with distinct keys. A point is the object \<^verbatim>\<open>{ longitude, latitude }\<close>.
\<close>

datatype jsvalue =
    JSUndefined
  | JSNull
  | JSBoolean bool
  | JSNumber number
  | JSString string
  | JSDate number
  | JSArray "jsvalue list"
  | JSObject "(string \<times> jsvalue) list"

definition Point :: "jsvalue \<Rightarrow> jsvalue \<Rightarrow> jsvalue" where
  "Point longitude latitude = JSObject [(''longitude'', longitude), (''latitude'', latitude)]"

text \<open>
  What a thrown exception carries. \<open>Error\<close> and \<open>RedisError\<close> hold the message.
  \<open>TypeError\<close> is the engine's own error (calling what is not a function, reading a
  property of \<^verbatim>\<open>null\<close>); its message is engine-specific and not modelled.

  TypeScript erases the casts of the converters (\<^verbatim>\<open>value as number\<close>, a parameter
  \<^verbatim>\<open>value: string\<close>). The model follows the declared types: where a converter applies an
  operation to a value outside the type it declares for it, the model stops with \<open>IllTyped\<close>
  and says nothing about what JavaScript would compute there.
\<close>

datatype error = Error string | RedisError string | TypeError | IllTyped

text \<open>
  \<^verbatim>\<open>FieldDefinition\<close> (schema-definitions): the type is one of the strings
  \<^verbatim>\<open>'string'\<close>, \<^verbatim>\<open>'text'\<close>, \<^verbatim>\<open>'number'\<close>, \<^verbatim>\<open>'boolean'\<close>, \<^verbatim>\<open>'point'\<close>, \<^verbatim>\<open>'date'\<close>, \<^verbatim>\<open>'string[]'\<close>
  and \<^verbatim>\<open>'object'\<close>; alias and separator are optional. A \<^verbatim>\<open>SchemaDefinition\<close> is the list of
  its fields in the order in which \<^verbatim>\<open>for ... in\<close> enumerates them; field names are distinct.
\<close>

record FieldDefinition =
  type :: string
  alias' :: "string option"
  separator :: "string option"

type_synonym SchemaDefinition = "(string \<times> FieldDefinition) list"

type_synonym EntityData = "string \<rightharpoonup> jsvalue"

type_synonym HashData = "string \<rightharpoonup> jsvalue"

text \<open>\<^verbatim>\<open>JsonData\<close>: \<open>None\<close> is \<^verbatim>\<open>null\<close>, the answer for a key that does not exist.\<close>

type_synonym JsonData = "(string \<rightharpoonup> jsvalue) option"

text \<open>\<^verbatim>\<open>object[key]\<close>: a missing property reads as \<^verbatim>\<open>undefined\<close>.\<close>

definition property :: "(string \<rightharpoonup> jsvalue) \<Rightarrow> string \<Rightarrow> jsvalue" where
  "property obj key = (case obj key of None \<Rightarrow> JSUndefined | Some v \<Rightarrow> v)"

text \<open>\<^verbatim>\<open>a ?? b\<close> on an optional string.\<close>

definition nullish :: "string option \<Rightarrow> string \<Rightarrow> string" where
  "nullish a b = (case a of None \<Rightarrow> b | Some s \<Rightarrow> s)"

section \<open>Conversions of the language\<close>

text \<open>
  What the host decides: how a string is parsed as a date (\<^verbatim>\<open>new Date(string)\<close>) and how
  a date prints (\<^verbatim>\<open>Date.prototype.toString\<close>, which depends on the time zone). Both are
  parameters of the functions that use them.
\<close>

record host =
  Date_parse :: "string \<Rightarrow> number"
  Date_toString :: "number \<Rightarrow> string"

text \<open>\<^verbatim>\<open>ToBoolean\<close>, the truthiness that \<^verbatim>\<open>value ? a : b\<close> tests.\<close>

fun ToBoolean :: "jsvalue \<Rightarrow> bool" where
  "ToBoolean JSUndefined = False"
| "ToBoolean JSNull = False"
| "ToBoolean (JSBoolean b) = b"
| "ToBoolean (JSNumber n) = (case n of NaN \<Rightarrow> False | Finite m e \<Rightarrow> m \<noteq> 0 | _ \<Rightarrow> True)"
| "ToBoolean (JSString s) = (s \<noteq> [])"
| "ToBoolean _ = True"

text \<open>
  \<^verbatim>\<open>ToString\<close>, the conversion of a template literal \<^verbatim>\<open>`${value}`\<close>. An array prints its
  elements joined by commas, \<^verbatim>\<open>null\<close> and \<^verbatim>\<open>undefined\<close> elements as the empty string. A
  plain object prints as \<^verbatim>\<open>[object Object]\<close>, unless it has an own property \<^verbatim>\<open>toString\<close>:
  the properties of the model hold data, no data is callable, and the conversion throws.
\<close>

fun ToString :: "host \<Rightarrow> jsvalue \<Rightarrow> error + string"
  and join_elements :: "host \<Rightarrow> jsvalue list \<Rightarrow> error + string"
  and element_ToString :: "host \<Rightarrow> jsvalue \<Rightarrow> error + string" where
  "ToString h JSUndefined = Inr ''undefined''"
| "ToString h JSNull = Inr ''null''"
| "ToString h (JSBoolean b) = Inr (if b then ''true'' else ''false'')"
| "ToString h (JSNumber n) = Inr (Number_toString n)"
| "ToString h (JSString s) = Inr s"
| "ToString h (JSDate t) = Inr (Date_toString h t)"
| "ToString h (JSArray xs) = join_elements h xs"
| "ToString h (JSObject props) =
     (if ''toString'' \<in> set (map fst props) then Inl TypeError else Inr ''[object Object]'')"
| "join_elements h [] = Inr []"
| "join_elements h (x # xs) =
     (case element_ToString h x of
        Inl e \<Rightarrow> Inl e
      | Inr s \<Rightarrow>
          if xs = [] then Inr s
          else (case join_elements h xs of Inl e \<Rightarrow> Inl e | Inr r \<Rightarrow> Inr (s @ '','' @ r)))"
| "element_ToString h x = (if x = JSUndefined \<or> x = JSNull then Inr [] else ToString h x)"

text \<open>The method call \<^verbatim>\<open>value.toString()\<close>: there is none on \<^verbatim>\<open>null\<close> and \<^verbatim>\<open>undefined\<close>.\<close>

definition toString_method :: "host \<Rightarrow> jsvalue \<Rightarrow> error + string" where
  "toString_method h v = (if v = JSUndefined \<or> v = JSNull then Inl TypeError else ToString h v)"

text \<open>
  \<^verbatim>\<open>value.longitude\<close> and \<^verbatim>\<open>value.latitude\<close> on a value that is neither \<^verbatim>\<open>null\<close> nor
  \<^verbatim>\<open>undefined\<close>: only a plain object has such a property.
\<close>

definition member :: "jsvalue \<Rightarrow> string \<Rightarrow> jsvalue" where
  "member v key =
     (case v of
        JSObject props \<Rightarrow> (case map_of props key of None \<Rightarrow> JSUndefined | Some x \<Rightarrow> x)
      | _ \<Rightarrow> JSUndefined)"

text \<open>The strings of an array of strings; \<open>None\<close> when an element is not a string.\<close>

fun strings :: "jsvalue list \<Rightarrow> string list option" where
  "strings [] = Some []"
| "strings (JSString s # xs) = (case strings xs of None \<Rightarrow> None | Some ss \<Rightarrow> Some (s # ss))"
| "strings (_ # xs) = None"

text \<open>Array destructuring \<^verbatim>\<open>[ a, b ] = array\<close>: a missing element is \<^verbatim>\<open>undefined\<close>.\<close>

definition element :: "jsvalue list \<Rightarrow> nat \<Rightarrow> jsvalue" where
  "element xs i = (if i < length xs then xs ! i else JSUndefined)"

section \<open>The converters\<close>

text \<open>
  \<^verbatim>\<open>src/unnamed/part_000\<close>, first document: the classes \<^verbatim>\<open>HashConverter\<close> and
  \<^verbatim>\<open>JsonConverter\<close>, their four tables and the functions the tables name.
\<close>

fun pointToString :: "jsvalue \<Rightarrow> error + string" where
  "pointToString (JSObject props) =
     (case (map_of props ''longitude'', map_of props ''latitude'') of
        (Some (JSNumber longitude), Some (JSNumber latitude)) \<Rightarrow>
          Inr (Number_toString longitude @ '','' @ Number_toString latitude)
      | _ \<Rightarrow> Inl IllTyped)"
| "pointToString _ = Inl IllTyped"

fun dateToString :: "jsvalue \<Rightarrow> error + string" where
  "dateToString (JSDate t) = Inr (Number_toString t)"
| "dateToString _ = Inl IllTyped"

fun dateToNumber :: "jsvalue \<Rightarrow> error + number" where
  "dateToNumber (JSDate t) = Inr t"
| "dateToNumber _ = Inl IllTyped"

fun stringArrayToString :: "jsvalue \<Rightarrow> FieldDefinition \<Rightarrow> error + string" where
  "stringArrayToString (JSArray xs) fieldDef =
     (case strings xs of
        None \<Rightarrow> Inl IllTyped
      | Some ss \<Rightarrow> Inr (join ss (nullish (separator fieldDef) ''|'')))"
| "stringArrayToString _ fieldDef = Inl IllTyped"

definition stringToNumber :: "string \<Rightarrow> error + number" where
  "stringToNumber s =
     (let number = parseFloat s in
      if number \<noteq> NaN then Inr number
      else Inl (Error (''Non-numeric value of '' @ quote s @ '' read from Redis for number field.'')))"

definition stringToBoolean :: "string \<Rightarrow> error + bool" where
  "stringToBoolean s =
     (if s = ''0'' then Inr False
      else if s = ''1'' then Inr True
      else Inl (Error (''Non-boolean value of '' @ quote s @ '' read from Redis for boolean field.'')))"

definition stringToPoint :: "string \<Rightarrow> jsvalue" where
  "stringToPoint s =
     (let parts = map (\<lambda>p. JSNumber (parseFloat p)) (split s '','') in
      Point (element parts 0) (element parts 1))"

definition stringToDate :: "string \<Rightarrow> error + jsvalue" where
  "stringToDate s =
     (let parsed = parseInt s in
      if parsed = NaN
      then Inl (Error (''Non-numeric value of '' @ quote s @ '' read from Redis for date field.''))
      else Inr (JSDate (TimeClip parsed)))"

definition stringToStringArray :: "string \<Rightarrow> FieldDefinition \<Rightarrow> jsvalue" where
  "stringToStringArray s fieldDef =
     JSArray (map JSString (split s (nullish (separator fieldDef) ''|'')))"

definition numberToDate :: "number \<Rightarrow> jsvalue" where
  "numberToDate n = JSDate (TimeClip n)"

text \<open>
  The tables, as maps from the field type to the converter. The converters of hash data
  are declared on strings (\<^verbatim>\<open>value: string\<close>).
\<close>

definition on_string :: "(string \<Rightarrow> error + jsvalue) \<Rightarrow> jsvalue \<Rightarrow> error + jsvalue" where
  "on_string f v = (case v of JSString s \<Rightarrow> f s | _ \<Rightarrow> Inl IllTyped)"

definition toHashConverters ::
  "string \<Rightarrow> (jsvalue \<Rightarrow> FieldDefinition \<Rightarrow> error + jsvalue) option" where
  "toHashConverters = map_of
     [(''number'', \<lambda>v fieldDef.
         case v of JSNumber n \<Rightarrow> Inr (JSString (Number_toString n)) | _ \<Rightarrow> Inl IllTyped),
      (''boolean'', \<lambda>v fieldDef.
         case v of JSBoolean b \<Rightarrow> Inr (JSString (if b then ''1'' else ''0'')) | _ \<Rightarrow> Inl IllTyped),
      (''string'', \<lambda>v fieldDef. case v of JSString s \<Rightarrow> Inr (JSString s) | _ \<Rightarrow> Inl IllTyped),
      (''text'', \<lambda>v fieldDef. case v of JSString s \<Rightarrow> Inr (JSString s) | _ \<Rightarrow> Inl IllTyped),
      (''point'', \<lambda>v fieldDef. map_sum id JSString (pointToString v)),
      (''date'', \<lambda>v fieldDef. map_sum id JSString (dateToString v)),
      (''string[]'', \<lambda>v fieldDef. map_sum id JSString (stringArrayToString v fieldDef)),
      (''object'', \<lambda>v fieldDef. Inr v)]"

definition fromHashConverters ::
  "string \<Rightarrow> (jsvalue \<Rightarrow> FieldDefinition \<Rightarrow> error + jsvalue) option" where
  "fromHashConverters = map_of
     [(''number'', \<lambda>v fieldDef. on_string (\<lambda>s. map_sum id JSNumber (stringToNumber s)) v),
      (''boolean'', \<lambda>v fieldDef. on_string (\<lambda>s. map_sum id JSBoolean (stringToBoolean s)) v),
      (''string'', \<lambda>v fieldDef. Inr v),
      (''text'', \<lambda>v fieldDef. Inr v),
      (''point'', \<lambda>v fieldDef. on_string (\<lambda>s. Inr (stringToPoint s)) v),
      (''date'', \<lambda>v fieldDef. on_string stringToDate v),
      (''string[]'', \<lambda>v fieldDef. on_string (\<lambda>s. Inr (stringToStringArray s fieldDef)) v),
      (''object'', \<lambda>v fieldDef. Inr v)]"

definition toJsonConverters :: "string \<Rightarrow> (jsvalue \<Rightarrow> error + jsvalue) option" where
  "toJsonConverters = map_of
     [(''number'', \<lambda>v. Inr v),
      (''boolean'', \<lambda>v. Inr v),
      (''string'', \<lambda>v. Inr v),
      (''text'', \<lambda>v. Inr v),
      (''point'', \<lambda>v. map_sum id JSString (pointToString v)),
      (''date'', \<lambda>v. map_sum id JSNumber (dateToNumber v)),
      (''string[]'', \<lambda>v. Inr v),
      (''object'', \<lambda>v. Inr v)]"

definition fromJsonConverters :: "string \<Rightarrow> (jsvalue \<Rightarrow> error + jsvalue) option" where
  "fromJsonConverters = map_of
     [(''number'', \<lambda>v. Inr v),
      (''boolean'', \<lambda>v. Inr v),
      (''string'', \<lambda>v. Inr v),
      (''text'', \<lambda>v. Inr v),
      (''point'', \<lambda>v. on_string (\<lambda>s. Inr (stringToPoint s)) v),
      (''date'', \<lambda>v. case v of JSNumber n \<Rightarrow> Inr (numberToDate n) | _ \<Rightarrow> Inl IllTyped),
      (''string[]'', \<lambda>v. Inr v),
      (''object'', \<lambda>v. Inr v)]"

text \<open>
  \<^verbatim>\<open>table[fieldType](value, fieldDef)\<close>: a type that the table does not have reads as
  \<^verbatim>\<open>undefined\<close>, and calling it throws.
\<close>

definition convert2 ::
  "(jsvalue \<Rightarrow> FieldDefinition \<Rightarrow> error + jsvalue) option \<Rightarrow>
     jsvalue \<Rightarrow> FieldDefinition \<Rightarrow> error + jsvalue" where
  "convert2 converter v fieldDef =
     (case converter of None \<Rightarrow> Inl TypeError | Some f \<Rightarrow> f v fieldDef)"

definition convert1 :: "(jsvalue \<Rightarrow> error + jsvalue) option \<Rightarrow> jsvalue \<Rightarrow> error + jsvalue" where
  "convert1 converter v = (case converter of None \<Rightarrow> Inl TypeError | Some f \<Rightarrow> f v)"

text \<open>
  \<^verbatim>\<open>HashConverter.toHashData\<close>: the loop over the fields of the schema, from the hash data
  built so far.
\<close>

fun HashConverter_toHashData_from ::
  "SchemaDefinition \<Rightarrow> EntityData \<Rightarrow> HashData \<Rightarrow> error + HashData" where
  "HashConverter_toHashData_from [] entityData hashData = Inr hashData"
| "HashConverter_toHashData_from ((fieldName, fieldDef) # rest) entityData hashData =
     (let entityValue = property entityData fieldName;
          fieldType = type fieldDef
      in if entityValue \<noteq> JSUndefined then
           (case convert2 (toHashConverters fieldType) entityValue fieldDef of
              Inl e \<Rightarrow> Inl e
            | Inr converted \<Rightarrow>
                HashConverter_toHashData_from rest entityData (hashData(fieldName \<mapsto> converted)))
         else HashConverter_toHashData_from rest entityData hashData)"

definition HashConverter_toHashData :: "SchemaDefinition \<Rightarrow> EntityData \<Rightarrow> error + HashData" where
  "HashConverter_toHashData schemaDef entityData =
     HashConverter_toHashData_from schemaDef entityData Map.empty"

fun HashConverter_toEntityData_from ::
  "SchemaDefinition \<Rightarrow> HashData \<Rightarrow> EntityData \<Rightarrow> error + EntityData" where
  "HashConverter_toEntityData_from [] hashData entityData = Inr entityData"
| "HashConverter_toEntityData_from ((fieldName, fieldDef) # rest) hashData entityData =
     (let hashValue = property hashData fieldName;
          fieldType = type fieldDef
      in if hashValue \<noteq> JSUndefined then
           (case convert2 (fromHashConverters fieldType) hashValue fieldDef of
              Inl e \<Rightarrow> Inl e
            | Inr converted \<Rightarrow>
                HashConverter_toEntityData_from rest hashData (entityData(fieldName \<mapsto> converted)))
         else HashConverter_toEntityData_from rest hashData entityData)"

definition HashConverter_toEntityData :: "SchemaDefinition \<Rightarrow> HashData \<Rightarrow> error + EntityData" where
  "HashConverter_toEntityData schemaDef hashData =
     HashConverter_toEntityData_from schemaDef hashData Map.empty"

fun JsonConverter_toJsonData_from ::
  "SchemaDefinition \<Rightarrow> EntityData \<Rightarrow> (string \<rightharpoonup> jsvalue) \<Rightarrow> error + (string \<rightharpoonup> jsvalue)" where
  "JsonConverter_toJsonData_from [] entityData jsonData = Inr jsonData"
| "JsonConverter_toJsonData_from ((fieldName, fieldDef) # rest) entityData jsonData =
     (let fieldValue = property entityData fieldName;
          fieldType = type fieldDef
      in if fieldValue \<noteq> JSUndefined then
           (case convert1 (toJsonConverters fieldType) fieldValue of
              Inl e \<Rightarrow> Inl e
            | Inr converted \<Rightarrow>
                JsonConverter_toJsonData_from rest entityData (jsonData(fieldName \<mapsto> converted)))
         else JsonConverter_toJsonData_from rest entityData jsonData)"

definition JsonConverter_toJsonData :: "SchemaDefinition \<Rightarrow> EntityData \<Rightarrow> error + JsonData" where
  "JsonConverter_toJsonData schemaDef entityData =
     map_sum id Some (JsonConverter_toJsonData_from schemaDef entityData Map.empty)"

fun JsonConverter_toEntityData_from ::
  "SchemaDefinition \<Rightarrow> (string \<rightharpoonup> jsvalue) \<Rightarrow> EntityData \<Rightarrow> error + EntityData" where
  "JsonConverter_toEntityData_from [] jsonData entityData = Inr entityData"
| "JsonConverter_toEntityData_from ((fieldName, fieldDef) # rest) jsonData entityData =
     (let jsonValue = property jsonData fieldName;
          fieldType = type fieldDef
      in if jsonValue \<noteq> JSUndefined \<and> jsonValue \<noteq> JSNull then
           (case convert1 (fromJsonConverters fieldType) jsonValue of
              Inl e \<Rightarrow> Inl e
            | Inr converted \<Rightarrow>
                JsonConverter_toEntityData_from rest jsonData (entityData(fieldName \<mapsto> converted)))
         else JsonConverter_toEntityData_from rest jsonData entityData)"

definition JsonConverter_toEntityData :: "SchemaDefinition \<Rightarrow> JsonData \<Rightarrow> error + EntityData" where
  "JsonConverter_toEntityData schemaDef jsonData =
     (case jsonData of
        None \<Rightarrow> Inr Map.empty
      | Some doc \<Rightarrow> JsonConverter_toEntityData_from schemaDef doc Map.empty)"

section \<open>The hash converter of lib/repository/hash-converter.ts\<close>

text \<open>
  \<^verbatim>\<open>src/lib/repository/hash-converter.ts\<close>: a second class \<^verbatim>\<open>HashConverter\<close>, over the field
  types \<^verbatim>\<open>'number'\<close>, \<^verbatim>\<open>'boolean'\<close>, \<^verbatim>\<open>'array'\<close>, \<^verbatim>\<open>'string'\<close>, \<^verbatim>\<open>'date'\<close> and \<^verbatim>\<open>'geopoint'\<close>. Its
  tests on the field type are a sequence of \<^verbatim>\<open>if\<close> statements of which at most one holds;
  a field of another type is skipped. Its errors name the field.
\<close>

definition hash_converter_encode ::
  "host \<Rightarrow> FieldDefinition \<Rightarrow> jsvalue \<Rightarrow> error + jsvalue option" where
  "hash_converter_encode h fieldDef v =
     (if type fieldDef = ''number'' then map_sum id (\<lambda>s. Some (JSString s)) (toString_method h v)
      else if type fieldDef = ''boolean'' then Inr (Some (JSString (if ToBoolean v then ''1'' else ''0'')))
      else if type fieldDef = ''array'' then
        map_sum id (\<lambda>s. Some (JSString s)) (stringArrayToString v fieldDef)
      else if type fieldDef = ''string'' then Inr (Some v)
      else if type fieldDef = ''date'' then map_sum id (\<lambda>s. Some (JSString s)) (dateToString v)
      else if type fieldDef = ''geopoint'' then map_sum id (\<lambda>s. Some (JSString s)) (pointToString v)
      else Inr None)"

fun hash_converter_toHashData_from ::
  "host \<Rightarrow> SchemaDefinition \<Rightarrow> EntityData \<Rightarrow> HashData \<Rightarrow> error + HashData" where
  "hash_converter_toHashData_from h [] entityData hashData = Inr hashData"
| "hash_converter_toHashData_from h ((field, fieldDef) # rest) entityData hashData =
     (let v = property entityData field in
      if v \<noteq> JSUndefined then
        (case hash_converter_encode h fieldDef v of
           Inl e \<Rightarrow> Inl e
         | Inr None \<Rightarrow> hash_converter_toHashData_from h rest entityData hashData
         | Inr (Some converted) \<Rightarrow>
             hash_converter_toHashData_from h rest entityData (hashData(field \<mapsto> converted)))
      else hash_converter_toHashData_from h rest entityData hashData)"

definition hash_converter_toHashData ::
  "host \<Rightarrow> SchemaDefinition \<Rightarrow> EntityData \<Rightarrow> error + HashData" where
  "hash_converter_toHashData h schemaDef entityData =
     hash_converter_toHashData_from h schemaDef entityData Map.empty"

definition addNumber :: "string \<Rightarrow> EntityData \<Rightarrow> string \<Rightarrow> error + EntityData" where
  "addNumber field entityData s =
     (let parsed = parseFloat s in
      if parsed = NaN
      then Inl (Error (''Non-numeric value of '' @ quote s @
                       '' read from Redis for number field '' @ quote field))
      else Inr (entityData(field \<mapsto> JSNumber (parseFloat s))))"

definition addBoolean :: "string \<Rightarrow> EntityData \<Rightarrow> string \<Rightarrow> error + EntityData" where
  "addBoolean field entityData s =
     (if s = ''0'' then Inr (entityData(field \<mapsto> JSBoolean False))
      else if s = ''1'' then Inr (entityData(field \<mapsto> JSBoolean True))
      else Inl (Error (''Non-boolean value of '' @ quote s @
                       '' read from Redis for boolean field '' @ quote field)))"

definition addArray ::
  "string \<Rightarrow> FieldDefinition \<Rightarrow> EntityData \<Rightarrow> string \<Rightarrow> error + EntityData" where
  "addArray field fieldDef entityData s =
     Inr (entityData(field \<mapsto> JSArray (map JSString (split s (nullish (separator fieldDef) ''|'')))))"

definition addString :: "string \<Rightarrow> EntityData \<Rightarrow> string \<Rightarrow> error + EntityData" where
  "addString field entityData s = Inr (entityData(field \<mapsto> JSString s))"

definition addDate :: "string \<Rightarrow> EntityData \<Rightarrow> string \<Rightarrow> error + EntityData" where
  "addDate field entityData s =
     (let parsed = parseInt s in
      if parsed = NaN
      then Inl (Error (''Non-numeric value of '' @ quote s @
                       '' read from Redis for date field '' @ quote field))
      else Inr (entityData(field \<mapsto> JSDate (TimeClip parsed))))"

definition addGeoPoint :: "string \<Rightarrow> EntityData \<Rightarrow> string \<Rightarrow> error + EntityData" where
  "addGeoPoint field entityData s =
     (let parts = map (\<lambda>p. JSNumber (parseFloat p)) (split s '','') in
      Inr (entityData(field \<mapsto> Point (element parts 0) (element parts 1))))"

definition hash_converter_decode ::
  "string \<Rightarrow> FieldDefinition \<Rightarrow> EntityData \<Rightarrow> string \<Rightarrow> error + EntityData" where
  "hash_converter_decode field fieldDef entityData s =
     (if type fieldDef = ''number'' then addNumber field entityData s
      else if type fieldDef = ''boolean'' then addBoolean field entityData s
      else if type fieldDef = ''array'' then addArray field fieldDef entityData s
      else if type fieldDef = ''string'' then addString field entityData s
      else if type fieldDef = ''date'' then addDate field entityData s
      else if type fieldDef = ''geopoint'' then addGeoPoint field entityData s
      else Inr entityData)"

fun hash_converter_toEntityData_from ::
  "SchemaDefinition \<Rightarrow> HashData \<Rightarrow> EntityData \<Rightarrow> error + EntityData" where
  "hash_converter_toEntityData_from [] hashData entityData = Inr entityData"
| "hash_converter_toEntityData_from ((field, fieldDef) # rest) hashData entityData =
     (let v = property hashData field in
      if v \<noteq> JSUndefined then
        (case v of
           JSString s \<Rightarrow>
             (case hash_converter_decode field fieldDef entityData s of
                Inl e \<Rightarrow> Inl e
              | Inr entityData' \<Rightarrow> hash_converter_toEntityData_from rest hashData entityData')
         | _ \<Rightarrow> Inl IllTyped)
      else hash_converter_toEntityData_from rest hashData entityData)"

definition hash_converter_toEntityData :: "SchemaDefinition \<Rightarrow> HashData \<Rightarrow> error + EntityData" where
  "hash_converter_toEntityData schemaDef hashData =
     hash_converter_toEntityData_from schemaDef hashData Map.empty"

section \<open>The schema\<close>

text \<open>
  \<^verbatim>\<open>src/unnamed/part_000\<close>, second document: the class \<^verbatim>\<open>Schema\<close>. Of its options the model
  keeps the data structure. \<^verbatim>\<open>defineProperties\<close> gives the entity one property per field
  of the schema; \<open>Schema_get\<close> and \<open>Schema_set\<close> are the getter and the setter of the
  property of \<open>field\<close>, on the entity data of the entity.
\<close>

record SchemaOptions =
  options_dataStructure :: "string option"

record Schema =
  entityCtor_name :: string
  schema_definition :: SchemaDefinition
  options :: "SchemaOptions option"

definition dataStructure :: "Schema \<Rightarrow> string" where
  "dataStructure schema =
     (case options schema of
        None \<Rightarrow> ''JSON''
      | Some opts \<Rightarrow> nullish (options_dataStructure opts) ''JSON'')"

definition isString :: "jsvalue \<Rightarrow> bool" where
  "isString v = (case v of JSString _ \<Rightarrow> True | _ \<Rightarrow> False)"

definition isNumber :: "jsvalue \<Rightarrow> bool" where
  "isNumber v = (case v of JSNumber _ \<Rightarrow> True | _ \<Rightarrow> False)"

definition isBoolean :: "jsvalue \<Rightarrow> bool" where
  "isBoolean v = (case v of JSBoolean _ \<Rightarrow> True | _ \<Rightarrow> False)"

definition isDate :: "jsvalue \<Rightarrow> bool" where
  "isDate v = (case v of JSDate _ \<Rightarrow> True | _ \<Rightarrow> False)"

definition isArray :: "jsvalue \<Rightarrow> bool" where
  "isArray v = (case v of JSArray _ \<Rightarrow> True | _ \<Rightarrow> False)"

definition isStringable :: "jsvalue \<Rightarrow> bool" where
  "isStringable v = (isString v \<or> isNumber v \<or> isBoolean v)"

definition isDateable :: "jsvalue \<Rightarrow> bool" where
  "isDateable v = (isDate v \<or> isString v \<or> isNumber v)"

definition isPoint :: "jsvalue \<Rightarrow> bool" where
  "isPoint v = (isNumber (member v ''longitude'') \<and> isNumber (member v ''latitude''))"

text \<open>\<^verbatim>\<open>value.map((v: any) => v.toString())\<close>: the first element that throws ends the loop.\<close>

fun map_toString :: "host \<Rightarrow> jsvalue list \<Rightarrow> error + jsvalue list" where
  "map_toString h [] = Inr []"
| "map_toString h (x # xs) =
     (case toString_method h x of
        Inl e \<Rightarrow> Inl e
      | Inr s \<Rightarrow> (case map_toString h xs of Inl e \<Rightarrow> Inl e | Inr ss \<Rightarrow> Inr (JSString s # ss)))"

definition Schema_get :: "string \<Rightarrow> FieldDefinition \<Rightarrow> EntityData \<Rightarrow> jsvalue" where
  "Schema_get field fieldDef entityData =
     (let fieldAlias = nullish (alias' fieldDef) field;
          v = property entityData fieldAlias
      in if v = JSUndefined \<or> v = JSNull then JSNull else v)"

definition Schema_set ::
  "host \<Rightarrow> string \<Rightarrow> string \<Rightarrow> FieldDefinition \<Rightarrow> jsvalue \<Rightarrow> EntityData \<Rightarrow> error + EntityData" where
  "Schema_set h entityName field fieldDef v entityData =
     (let fieldType = type fieldDef;
          fieldAlias = nullish (alias' fieldDef) field
      in
      if v = JSUndefined then
        Inl (Error (''Property '' @ quote field @ '' on entity of type '' @ quote entityName @
                    '' cannot be set to undefined. Use null instead.''))
      else if v = JSNull then Inr (entityData(fieldAlias := None))
      else if fieldType = ''string'' \<and> isStringable v then
        map_sum id (\<lambda>s. entityData(fieldAlias \<mapsto> JSString s)) (toString_method h v)
      else if fieldType = ''object'' then Inr (entityData(fieldAlias \<mapsto> v))
      else if fieldType = ''text'' \<and> isStringable v then
        map_sum id (\<lambda>s. entityData(fieldAlias \<mapsto> JSString s)) (toString_method h v)
      else if fieldType = ''number'' \<and> isNumber v then Inr (entityData(fieldAlias \<mapsto> v))
      else if fieldType = ''boolean'' \<and> isBoolean v then Inr (entityData(fieldAlias \<mapsto> v))
      else if fieldType = ''point'' \<and> isPoint v then
        Inr (entityData(fieldAlias \<mapsto> Point (member v ''longitude'') (member v ''latitude'')))
      else if fieldType = ''date'' \<and> isDateable v \<and> isDate v then
        Inr (entityData(fieldAlias \<mapsto> v))
      else if fieldType = ''date'' \<and> isDateable v \<and> isString v then
        (case v of
           JSString s \<Rightarrow> Inr (entityData(fieldAlias \<mapsto> JSDate (TimeClip (Date_parse h s))))
         | _ \<Rightarrow> Inl IllTyped)
      else if fieldType = ''date'' \<and> isDateable v \<and> isNumber v then
        (case v of
           JSNumber n \<Rightarrow> Inr (entityData(fieldAlias \<mapsto> JSDate (TimeClip n)))
         | _ \<Rightarrow> Inl IllTyped)
      else if fieldType = ''string[]'' \<and> isArray v then
        (case v of
           JSArray xs \<Rightarrow> map_sum id (\<lambda>ss. entityData(fieldAlias \<mapsto> JSArray ss)) (map_toString h xs)
         | _ \<Rightarrow> Inl IllTyped)
      else
        (case ToString h v of
           Inl e \<Rightarrow> Inl e
         | Inr s \<Rightarrow>
             Inl (RedisError (''Property '' @ quote field @ '' expected type of '' @
                              quote fieldType @ '' but received value of '' @ quote s @ ''.''))))"

definition validateFieldDef :: "string \<Rightarrow> FieldDefinition \<Rightarrow> error + unit" where
  "validateFieldDef field fieldDef =
     (if type fieldDef \<notin> set [''boolean'', ''date'', ''number'', ''point'', ''string'', ''string[]'',
                                ''text'', ''object'']
      then Inl (Error (''The field '' @ quote field @ '' is configured with a type of '' @
                       quote (type fieldDef) @ ''. Valid types include '' @ quote ''boolean'' @
                       '', '' @ quote ''date'' @ '', '' @ quote ''number'' @ '', '' @
                       quote ''point'' @ '', '' @ quote ''string'' @ '', '' @ quote ''string[]'' @
                       '', '' @ quote ''text'' @ '', and '' @ quote ''object'' @ ''.''))
      else Inr ())"

section \<open>The index schema builder\<close>

text \<open>\<^verbatim>\<open>src/unnamed/part_001\<close>, first document: the class \<^verbatim>\<open>SchemaBuilder\<close>.\<close>

definition buildHashSchemaEntry :: "string \<Rightarrow> FieldDefinition \<Rightarrow> string list" where
  "buildHashSchemaEntry field fieldDef =
     (let fieldType = type fieldDef;
          fieldAlias = nullish (alias' fieldDef) field
      in [fieldAlias]
         @ (if fieldType = ''date'' then [''NUMERIC''] else [])
         @ (if fieldType = ''boolean'' then [''TAG''] else [])
         @ (if fieldType = ''number'' then [''NUMERIC''] else [])
         @ (if fieldType = ''point'' then [''GEO''] else [])
         @ (if fieldType = ''string[]''
            then [''TAG'', ''SEPARATOR'', nullish (separator fieldDef) ''|''] else [])
         @ (if fieldType = ''string''
            then [''TAG'', ''SEPARATOR'', nullish (separator fieldDef) ''|''] else [])
         @ (if fieldType = ''text'' then [''TEXT''] else []))"

definition buildJsonSchemaEntry :: "string \<Rightarrow> FieldDefinition \<Rightarrow> string list" where
  "buildJsonSchemaEntry field fieldDef =
     (let fieldType = type fieldDef;
          fieldAlias = nullish (alias' fieldDef) field;
          fieldPath = ''$.'' @ fieldAlias @ (if fieldType = ''string[]'' then ''[*]'' else [])
      in [fieldPath, ''AS'', fieldAlias]
         @ (if fieldType = ''boolean'' then [''TAG''] else [])
         @ (if fieldType = ''number'' then [''NUMERIC''] else [])
         @ (if fieldType = ''point'' then [''GEO''] else [])
         @ (if fieldType = ''date'' then [''NUMERIC''] else [])
         @ (if fieldType = ''string[]'' then [''TAG''] else [])
         @ (if fieldType = ''string''
            then [''TAG'', ''SEPARATOR'', nullish (separator fieldDef) ''|''] else [])
         @ (if fieldType = ''text'' then [''TEXT''] else []))"

definition buildHashSchema :: "Schema \<Rightarrow> string list" where
  "buildHashSchema schema =
     concat (map (\<lambda>(field, fieldDef). buildHashSchemaEntry field fieldDef) (schema_definition schema))"

definition buildJsonSchema :: "Schema \<Rightarrow> string list" where
  "buildJsonSchema schema =
     concat (map (\<lambda>(field, fieldDef). buildJsonSchemaEntry field fieldDef) (schema_definition schema))"

definition redisSchema :: "Schema \<Rightarrow> error + string list" where
  "redisSchema schema =
     (if dataStructure schema = ''JSON'' then Inr (buildJsonSchema schema)
      else if dataStructure schema = ''HASH'' then Inr (buildHashSchema schema)
      else Inl (Error (quote ''FOO'' @ '' in an invalid data structure. Valid data structures are '' @
                       quote ''HASH'' @ '' and '' @ quote ''JSON'' @ ''.'')))"

section \<open>The fluent search\<close>

text \<open>
  \<^verbatim>\<open>src/unnamed/part_001\<close>, second document: the class \<^verbatim>\<open>Search\<close>. The classes of the
  predicate tree (\<^verbatim>\<open>Where\<close>, \<^verbatim>\<open>WhereAnd\<close>, \<^verbatim>\<open>WhereOr\<close>, \<^verbatim>\<open>WhereField\<close> and the leaf classes that
  \<^verbatim>\<open>createWhere\<close> instantiates) are imported by it and are not among the sources. A node of
  the tree is a leaf, with the name of its class, its field and its operand (none until the
  leaf is given one), or \<^verbatim>\<open>new WhereAnd(left, right)\<close>, or \<^verbatim>\<open>new WhereOr(left, right)\<close>.
\<close>

datatype Where =
    WhereField string string "string option"
  | WhereAnd Where Where
  | WhereOr Where Where

record Search =
  search_schema :: Schema
  rootWhere :: "Where option"

definition createWhere :: "Search \<Rightarrow> string \<Rightarrow> error + Where" where
  "createWhere search field =
     (case map_of (schema_definition (search_schema search)) field of
        None \<Rightarrow> Inl (Error (''The field '' @ quote field @ '' is not part of the schema.''))
      | Some fieldDef \<Rightarrow>
          if type fieldDef = ''boolean'' \<and> dataStructure (search_schema search) = ''HASH''
            then Inr (WhereField ''WhereHashBoolean'' field None)
          else if type fieldDef = ''boolean'' \<and> dataStructure (search_schema search) = ''JSON''
            then Inr (WhereField ''WhereJsonBoolean'' field None)
          else if type fieldDef = ''date'' then Inr (WhereField ''WhereDate'' field None)
          else if type fieldDef = ''number'' then Inr (WhereField ''WhereNumber'' field None)
          else if type fieldDef = ''point'' then Inr (WhereField ''WherePoint'' field None)
          else if type fieldDef = ''text'' then Inr (WhereField ''WhereText'' field None)
          else if type fieldDef = ''string'' then Inr (WhereField ''WhereString'' field None)
          else if type fieldDef = ''string[]'' then Inr (WhereField ''WhereStringArray'' field None)
          else Inl (Error (''The field type of '' @ quote (type fieldDef) @
                           '' is not a valid field type. Valid types include '' @
                           quote ''boolean'' @ '', '' @ quote ''date'' @ '', '' @
                           quote ''number'' @ '', '' @ quote ''point'' @ '', '' @
                           quote ''string'' @ '', and '' @ quote ''string[]'' @ ''.'')))"

text \<open>
  \<^verbatim>\<open>anyWhereForField\<close> returns the new leaf; the search it leaves behind is returned with
  it. \<open>ctor\<close> is the constructor that \<^verbatim>\<open>where\<close>, \<^verbatim>\<open>and\<close> and \<^verbatim>\<open>or\<close> pass.
\<close>

definition anyWhereForField ::
  "(Where \<Rightarrow> Where \<Rightarrow> Where) \<Rightarrow> string \<Rightarrow> Search \<Rightarrow> error + (Where \<times> Search)" where
  "anyWhereForField ctor field search =
     (case createWhere search field of
        Inl e \<Rightarrow> Inl e
      | Inr w \<Rightarrow>
          Inr (w, search\<lparr>rootWhere :=
                 Some (case rootWhere search of None \<Rightarrow> w | Some root \<Rightarrow> ctor root w)\<rparr>))"

definition anyWhereForFunction ::
  "(Where \<Rightarrow> Where \<Rightarrow> Where) \<Rightarrow> (Search \<Rightarrow> error + Search) \<Rightarrow> Search \<Rightarrow> error + Search" where
  "anyWhereForFunction ctor subSearchFn search =
     (case subSearchFn \<lparr>search_schema = search_schema search, rootWhere = None\<rparr> of
        Inl e \<Rightarrow> Inl e
      | Inr subSearch \<Rightarrow>
          (case rootWhere subSearch of
             None \<Rightarrow> Inl (Error ''Sub-search without and root where was somehow defined.'')
           | Some subRoot \<Rightarrow>
               Inr (search\<lparr>rootWhere :=
                      Some (case rootWhere search of
                              None \<Rightarrow> subRoot
                            | Some root \<Rightarrow> ctor root subRoot)\<rparr>)))"

text \<open>
  \<^verbatim>\<open>where\<close>, \<^verbatim>\<open>and\<close> and \<^verbatim>\<open>or\<close> on a field name. (On a function they call
  \<open>anyWhereForFunction\<close> with the same constructor.)
\<close>

definition Search_where :: "string \<Rightarrow> Search \<Rightarrow> error + (Where \<times> Search)" where
  "Search_where field search = anyWhereForField WhereAnd field search"

definition Search_and :: "string \<Rightarrow> Search \<Rightarrow> error + (Where \<times> Search)" where
  "Search_and field search = anyWhereForField WhereAnd field search"

definition Search_or :: "string \<Rightarrow> Search \<Rightarrow> error + (Where \<times> Search)" where
  "Search_or field search = anyWhereForField WhereOr field search"

text \<open>
  Modelled from the spec: the leaf classes and the \<^verbatim>\<open>toString\<close> of the nodes
  (\<^verbatim>\<open>where-field.ts\<close>, \<^verbatim>\<open>where-number.ts\<close>, \<^verbatim>\<open>where-and.ts\<close>, \<^verbatim>\<open>where-or.ts\<close> are missing).
  The spec (4.4): a leaf builder, "upon being given operand(s), finalizes into an immutable
  leaf Predicate Node"; "combinators render as (left AND right) / (left OR right), always
  fully parenthesized"; its example writes the leaf of \<^verbatim>\<open>where("a").eq(1)\<close> as \<^verbatim>\<open>{a}=1\<close>.

  The leaf that \<open>anyWhereForField\<close> returned is already in the tree, as the root or as the
  right child of the root; \<open>eq\<close> gives it its operand there and returns the search.
\<close>

fun with_operand :: "string \<Rightarrow> Where \<Rightarrow> Where" where
  "with_operand x (WhereField cls field _) = WhereField cls field (Some x)"
| "with_operand x w = w"

fun with_new_operand :: "string \<Rightarrow> Where \<Rightarrow> Where" where
  "with_new_operand x (WhereAnd left right) = WhereAnd left (with_operand x right)"
| "with_new_operand x (WhereOr left right) = WhereOr left (with_operand x right)"
| "with_new_operand x w = with_operand x w"

definition eq :: "string \<Rightarrow> Where \<times> Search \<Rightarrow> Search" where
  "eq x built =
     (case built of (w, search) \<Rightarrow>
        search\<lparr>rootWhere := map_option (with_new_operand x) (rootWhere search)\<rparr>)"

fun Where_toString :: "Where \<Rightarrow> string" where
  "Where_toString (WhereField cls field operand) =
     ''{'' @ field @ ''}='' @ (case operand of None \<Rightarrow> [] | Some x \<Rightarrow> x)"
| "Where_toString (WhereAnd left right) =
     ''('' @ Where_toString left @ '' AND '' @ Where_toString right @ '')''"
| "Where_toString (WhereOr left right) =
     ''('' @ Where_toString left @ '' OR '' @ Where_toString right @ '')''"

text \<open>The getter \<^verbatim>\<open>query\<close> of \<^verbatim>\<open>Search\<close>.\<close>

definition query :: "Search \<Rightarrow> string" where
  "query search = (case rootWhere search of None \<Rightarrow> ''*'' | Some root \<Rightarrow> Where_toString root)"

section \<open>Notions that the properties use\<close>

text \<open>\<^verbatim>\<open>decode(encode(entityData))\<close>, in the flat (hash) and in the structured (JSON) encoding.\<close>

definition hash_round_trip :: "SchemaDefinition \<Rightarrow> EntityData \<Rightarrow> error + EntityData" where
  "hash_round_trip schemaDef entityData =
     (case HashConverter_toHashData schemaDef entityData of
        Inl e \<Rightarrow> Inl e
      | Inr hashData \<Rightarrow> HashConverter_toEntityData schemaDef hashData)"






text \<open>Whether a string starts with a character of a kind.\<close>

fun starts_with :: "(char \<Rightarrow> bool) \<Rightarrow> string \<Rightarrow> bool" where
  "starts_with P [] = False"
| "starts_with P (c # _) = P c"








text \<open>
  A chain of calls on a search: each call names a field with \<^verbatim>\<open>where\<close>, \<^verbatim>\<open>and\<close> or
  \<^verbatim>\<open>or\<close> and gives the leaf its operand with \<^verbatim>\<open>eq\<close>, as in
  \<^verbatim>\<open>search.where("a").eq(1).or("b").eq(2)\<close>. The first call that throws ends the chain.
\<close>

datatype call = Where_eq string string | And_eq string string | Or_eq string string

fun call_step :: "call \<Rightarrow> Search \<Rightarrow> error + Search" where
  "call_step (Where_eq field x) search = map_sum id (eq x) (Search_where field search)"
| "call_step (And_eq field x) search = map_sum id (eq x) (Search_and field search)"
| "call_step (Or_eq field x) search = map_sum id (eq x) (Search_or field search)"

fun chain :: "call list \<Rightarrow> Search \<Rightarrow> error + Search" where
  "chain [] search = Inr search"
| "chain (c # cs) search =
     (case call_step c search of Inl e \<Rightarrow> Inl e | Inr search' \<Rightarrow> chain cs search')"

text \<open>
  What the claim says of a chain, in its words: the leaf of a call, with its operand;
  then, call after call, the previous root becomes the left child and the new leaf the right
  child, of an AND for \<^verbatim>\<open>where\<close> and \<^verbatim>\<open>and\<close>, of an OR for \<^verbatim>\<open>or\<close>.
\<close>

fun leaf :: "Search \<Rightarrow> call \<Rightarrow> error + Where" where
  "leaf search (Where_eq field x) = map_sum id (with_operand x) (createWhere search field)"
| "leaf search (And_eq field x) = map_sum id (with_operand x) (createWhere search field)"
| "leaf search (Or_eq field x) = map_sum id (with_operand x) (createWhere search field)"

fun wrap :: "Where option \<Rightarrow> call \<Rightarrow> Where \<Rightarrow> Where" where
  "wrap None c w = w"
| "wrap (Some root) (Where_eq field x) w = WhereAnd root w"
| "wrap (Some root) (And_eq field x) w = WhereAnd root w"
| "wrap (Some root) (Or_eq field x) w = WhereOr root w"

fun left_to_right :: "Where option \<Rightarrow> (call \<times> Where) list \<Rightarrow> Where option" where
  "left_to_right root [] = root"
| "left_to_right root ((c, w) # rest) = left_to_right (Some (wrap root c w)) rest"

section \<open>Printing and parsing numbers\<close>

text \<open>
  The recursive equations of \<open>digits\<close> and \<open>decimal\<close> rewrite their own right-hand
  sides; the proofs unfold them by hand.
\<close>

declare digits.simps [simp del]
declare decimal.simps [simp del]

lemma lt_10_cases: "d < 10 \<Longrightarrow> d \<in> {0, 1, 2, 3, 4, 5, 6, 7, 8, 9::nat}"
  by auto


lemma isDigit_digit_char: "d < 10 \<Longrightarrow> isDigit (digit_char d)"
  by (drule lt_10_cases) (auto simp: isDigit_def digit_char_def)



lemma digits_unfold:
  "digits n = (if n < 10 then [digit_char n] else digits (n div 10) @ [digit_char (n mod 10)])"
  by (rule digits.simps)

lemma digits_all_digit: "c \<in> set (digits n) \<Longrightarrow> isDigit c"
proof (induction n rule: digits.induct)
  case (1 n)
  show ?case
  proof (cases "n < 10")
    case True
    then have "digits n = [digit_char n]" by (subst digits.simps) simp
    with 1(2) True show ?thesis by (simp add: isDigit_digit_char)
  next
    case False
    then have "digits n = digits (n div 10) @ [digit_char (n mod 10)]"
      by (subst digits.simps) simp
    with 1(2) have "c \<in> set (digits (n div 10)) \<or> c = digit_char (n mod 10)" by auto
    then show ?thesis
    proof
      assume "c \<in> set (digits (n div 10))"
      with 1(1) False show ?thesis by simp
    next
      assume "c = digit_char (n mod 10)"
      then show ?thesis by (simp add: isDigit_digit_char)
    qed
  qed
qed

lemma digits_nonempty: "digits n \<noteq> []"
  by (subst digits.simps) simp







lemma isDigit_chars [simp]:
  "\<not> isDigit (CHR ''.'')" "\<not> isDigit (CHR ''e'')" "\<not> isDigit (CHR ''-'')"
  "\<not> isDigit (CHR ''+'')" "isDigit (CHR ''0'')"
  by (simp_all add: isDigit_def)









lemma parseSign_digits: "parseSign (digits x @ r) = (False, digits x @ r)"
proof -
  obtain c cs where eq: "digits x = c # cs" using digits_nonempty [of x] by (cases "digits x") auto
  then have "isDigit c" using digits_all_digit [of c x] by simp
  then have "c \<noteq> CHR ''-''" "c \<noteq> CHR ''+''" by auto
  then show ?thesis by (simp add: eq)
qed






lemma starts_with_e [simp]:
  "\<not> starts_with isDigit (CHR ''e'' # r)" "\<not> starts_with (\<lambda>c. c = CHR ''.'') (CHR ''e'' # r)"
  by simp_all






section \<open>The loops over the fields of a schema\<close>

text \<open>
  Each converter visits the fields of the schema in order and skips a field whose value is
  \<^verbatim>\<open>undefined\<close> (in the JSON decoder also \<^verbatim>\<open>null\<close>). A skipped field leaves the result as it
  was.
\<close>

lemma property_upd [simp]:
  "property (m(k \<mapsto> v)) k' = (if k' = k then v else property m k')"
  "property (m(k := None)) k' = (if k' = k then JSUndefined else property m k')"
  by (simp_all add: property_def)

lemma JsonConverter_toEntityData_from_Cons:
  "JsonConverter_toEntityData_from ((fieldName, fieldDef) # rest) doc acc =
     (if property doc fieldName \<noteq> JSUndefined \<and> property doc fieldName \<noteq> JSNull then
        (case convert1 (fromJsonConverters (type fieldDef)) (property doc fieldName) of
           Inl e \<Rightarrow> Inl e
         | Inr converted \<Rightarrow>
             JsonConverter_toEntityData_from rest doc (acc(fieldName \<mapsto> converted)))
      else JsonConverter_toEntityData_from rest doc acc)"
  by (simp add: Let_def)

lemma JsonConverter_toEntityData_from_null:
  "JsonConverter_toEntityData_from schemaDef (doc(f \<mapsto> JSNull)) acc =
   JsonConverter_toEntityData_from schemaDef (doc(f := None)) acc"
proof (induction schemaDef arbitrary: acc)
  case Nil
  then show ?case by simp
next
  case (Cons fd schemaDef)
  obtain fieldName fieldDef where fd: "fd = (fieldName, fieldDef)" by (cases fd)
  show ?case
  proof (cases "fieldName = f")
    case True
    then show ?thesis
      by (simp only: fd JsonConverter_toEntityData_from_Cons property_upd Cons.IH) simp
  next
    case False
    then show ?thesis
      by (simp only: fd JsonConverter_toEntityData_from_Cons property_upd Cons.IH if_False)
  qed
qed

lemma JsonConverter_toEntityData_from_skipped:
  assumes "JsonConverter_toEntityData_from schemaDef doc acc = Inr entityData"
    and "property doc f = JSUndefined \<or> property doc f = JSNull"
  shows "entityData f = acc f"
  using assms
proof (induction schemaDef arbitrary: acc)
  case Nil
  then show ?case by simp
next
  case (Cons fd schemaDef)
  obtain fieldName fieldDef where fd: "fd = (fieldName, fieldDef)" by (cases fd)
  show ?case
  proof (cases "property doc fieldName \<noteq> JSUndefined \<and> property doc fieldName \<noteq> JSNull")
    case True
    then have ne: "fieldName \<noteq> f" using Cons.prems(2) by auto
    from True Cons.prems(1) obtain converted where
      "JsonConverter_toEntityData_from schemaDef doc (acc(fieldName \<mapsto> converted)) = Inr entityData"
      by (auto simp: fd Let_def split: sum.splits)
    then have "entityData f = (acc(fieldName \<mapsto> converted)) f"
      using Cons.IH Cons.prems(2) by blast
    with ne show ?thesis by simp
  next
    case False
    then have "JsonConverter_toEntityData_from schemaDef doc acc = Inr entityData"
      using Cons.prems(1) by (auto simp: fd Let_def)
    then show ?thesis using Cons.IH Cons.prems(2) by blast
  qed
qed







section \<open>Evaluating the converters\<close>

text \<open>The definitions that a run of the converters on a concrete record unfolds.\<close>

lemmas converter_defs =
  HashConverter_toHashData_def HashConverter_toEntityData_def
  JsonConverter_toJsonData_def JsonConverter_toEntityData_def
  hash_converter_toHashData_def hash_converter_toEntityData_def
  hash_converter_encode_def hash_converter_decode_def
  convert1_def convert2_def toHashConverters_def fromHashConverters_def
  toJsonConverters_def fromJsonConverters_def on_string_def property_def nullish_def
  stringToNumber_def stringToBoolean_def stringToPoint_def stringToDate_def
  stringToStringArray_def numberToDate_def
  addNumber_def addBoolean_def addArray_def addString_def addDate_def addGeoPoint_def
  quote_def Let_def

lemmas number_defs =
  parseFloat_def parseInt_def parseUnsigned_def parseExponent_def trimStart_def
  isWhiteSpace_def isDigit_def isHexDigit_def digits_value_def digit_value_def
  hex_digits_value_def hex_digit_value_def positive_toString_def digit_char_def
  digits.simps decimal.simps TimeClip_def

section \<open>Which strings the parsers accept\<close>


















section \<open>Joining and splitting, printing and parsing\<close>













section \<open>One field through an encoding and back\<close>






















section \<open>The round-trip law (C1)\<close>


text \<open>
  Other values that the hash encoding does not give back: the empty array comes back as
  the array of the empty string, and the number \<^verbatim>\<open>NaN\<close> and the invalid date are printed
  as \<^verbatim>\<open>NaN\<close>, which the decoder rejects.
\<close>

lemma hash_round_trip_other_values:
  "hash_round_trip [(''tags'', \<lparr>type = ''string[]'', alias' = None, separator = None\<rparr>)]
     [''tags'' \<mapsto> JSArray []] = Inr [''tags'' \<mapsto> JSArray [JSString []]]"
  "hash_round_trip [(''n'', \<lparr>type = ''number'', alias' = None, separator = None\<rparr>)]
     [''n'' \<mapsto> JSNumber NaN] =
     Inl (Error ''Non-numeric value of 'NaN' read from Redis for number field.'')"
  "hash_round_trip [(''d'', \<lparr>type = ''date'', alias' = None, separator = None\<rparr>)]
     [''d'' \<mapsto> JSDate NaN] =
     Inl (Error ''Non-numeric value of 'NaN' read from Redis for date field.'')"
  by (simp_all add: hash_round_trip_def converter_defs number_defs split_def join.simps)



section \<open>A null in a JSON record (C6)\<close>

text \<open>
  C6. In the structured (JSON) encoding, decoding treats a stored \<^verbatim>\<open>null\<close> as an absent
  field: the record with \<^verbatim>\<open>null\<close> at a field decodes exactly as the record without the
  field does (to the same entity data, or to the same error of another field), so the
  \<^verbatim>\<open>null\<close> itself raises no error, and entity data that comes out has no value at the
  field. Decoding the record \<^verbatim>\<open>null\<close> yields the empty entity data.
\<close>

theorem C6_json_null_is_absent:
  "JsonConverter_toEntityData schemaDef None = Inr Map.empty \<and>
   JsonConverter_toEntityData schemaDef (Some (doc(f \<mapsto> JSNull))) =
     JsonConverter_toEntityData schemaDef (Some (doc(f := None))) \<and>
   (case JsonConverter_toEntityData schemaDef (Some (doc(f \<mapsto> JSNull))) of
      Inl e \<Rightarrow> JsonConverter_toEntityData schemaDef (Some (doc(f := None))) = Inl e
    | Inr entityData \<Rightarrow> entityData f = None)"
proof -
  have a: "JsonConverter_toEntityData schemaDef None = Inr Map.empty"
    by (simp add: JsonConverter_toEntityData_def)
  have b: "JsonConverter_toEntityData schemaDef (Some (doc(f \<mapsto> JSNull))) =
     JsonConverter_toEntityData schemaDef (Some (doc(f := None)))"
    by (simp add: JsonConverter_toEntityData_def JsonConverter_toEntityData_from_null)
  have c: "entityData f = None"
    if "JsonConverter_toEntityData schemaDef (Some (doc(f \<mapsto> JSNull))) = Inr entityData"
    for entityData
    using JsonConverter_toEntityData_from_skipped [of schemaDef "doc(f \<mapsto> JSNull)" Map.empty entityData f] that
    by (simp add: JsonConverter_toEntityData_def)
  show ?thesis
    using a b c by (auto split: sum.splits)
qed

section \<open>Unset fields (C8)\<close>



section \<open>The setter of a property (C9)\<close>

text \<open>
  C9. For every field of a schema, assigning \<^verbatim>\<open>undefined\<close> through the setter of its
  property throws an error, whose message says to use \<^verbatim>\<open>null\<close> instead, whatever the type
  of the field and the entity data are; assigning \<^verbatim>\<open>null\<close> removes the field from the
  entity data, and the getter then returns \<^verbatim>\<open>null\<close>.
\<close>

theorem C9_setter_undefined_and_null:
  "Schema_set h entityName field fieldDef JSUndefined entityData =
     Inl (Error (''Property '' @ quote field @ '' on entity of type '' @ quote entityName @
                 '' cannot be set to undefined. Use null instead.'')) \<and>
   Schema_set h entityName field fieldDef JSNull entityData =
     Inr (entityData(nullish (alias' fieldDef) field := None)) \<and>
   Schema_get field fieldDef (entityData(nullish (alias' fieldDef) field := None)) = JSNull"
  by (simp add: Schema_set_def Schema_get_def Let_def)

section \<open>Aliases (C3)\<close>

text \<open>
  C3. The claim: the flat encoding writes a field under its alias and reads it back by its
  alias. The converters do not: \<^verbatim>\<open>toHashData\<close> and \<^verbatim>\<open>toEntityData\<close>, those of both
  files, write and read \<^verbatim>\<open>fieldName\<close> and never look at the alias. For a string field
  \<^verbatim>\<open>aString\<close> with the alias \<^verbatim>\<open>s\<close>, the value is stored under \<^verbatim>\<open>aString\<close>, and a record
  that holds it under \<^verbatim>\<open>s\<close> decodes to nothing. The rest of the program does use the alias:
  the setter of the property stores the value in the entity data under \<^verbatim>\<open>s\<close> (where
  \<^verbatim>\<open>toHashData\<close>, which reads \<^verbatim>\<open>aString\<close>, does not find it), and the index is declared
  on \<^verbatim>\<open>s\<close>.
\<close>

theorem C3_converters_ignore_the_alias:
  "HashConverter_toHashData
     [(''aString'', \<lparr>type = ''string'', alias' = Some ''s'', separator = None\<rparr>)]
     [''aString'' \<mapsto> JSString ''foo''] =
     Inr [''aString'' \<mapsto> JSString ''foo''] \<and>
   HashConverter_toEntityData
     [(''aString'', \<lparr>type = ''string'', alias' = Some ''s'', separator = None\<rparr>)]
     [''s'' \<mapsto> JSString ''foo''] =
     Inr Map.empty \<and>
   hash_converter_toHashData h
     [(''aString'', \<lparr>type = ''string'', alias' = Some ''s'', separator = None\<rparr>)]
     [''aString'' \<mapsto> JSString ''foo''] =
     Inr [''aString'' \<mapsto> JSString ''foo''] \<and>
   hash_converter_toEntityData
     [(''aString'', \<lparr>type = ''string'', alias' = Some ''s'', separator = None\<rparr>)]
     [''s'' \<mapsto> JSString ''foo''] =
     Inr Map.empty \<and>
   Schema_set h ''Foo'' ''aString'' \<lparr>type = ''string'', alias' = Some ''s'', separator = None\<rparr>
     (JSString ''foo'') Map.empty =
     Inr [''s'' \<mapsto> JSString ''foo''] \<and>
   HashConverter_toHashData
     [(''aString'', \<lparr>type = ''string'', alias' = Some ''s'', separator = None\<rparr>)]
     [''s'' \<mapsto> JSString ''foo''] =
     Inr Map.empty \<and>
   buildHashSchemaEntry ''aString'' \<lparr>type = ''string'', alias' = Some ''s'', separator = None\<rparr> =
     [''s'', ''TAG'', ''SEPARATOR'', ''|'']"
  by (simp add: converter_defs Schema_set_def isStringable_def isString_def toString_method_def
      buildHashSchemaEntry_def)

section \<open>A malformed boolean (C4)\<close>

text \<open>
  Whatever string other than \<^verbatim>\<open>0\<close> and \<^verbatim>\<open>1\<close> a boolean field holds, both hash converters
  throw: none of them yields \<^verbatim>\<open>false\<close>.
\<close>

lemma stringToBoolean_rejects:
  "s \<noteq> ''0'' \<Longrightarrow> s \<noteq> ''1'' \<Longrightarrow>
   stringToBoolean s =
     Inl (Error (''Non-boolean value of '' @ quote s @ '' read from Redis for boolean field.''))"
  by (simp add: stringToBoolean_def)

lemma addBoolean_rejects:
  "s \<noteq> ''0'' \<Longrightarrow> s \<noteq> ''1'' \<Longrightarrow>
   addBoolean field entityData s =
     Inl (Error (''Non-boolean value of '' @ quote s @
                 '' read from Redis for boolean field '' @ quote field))"
  by (simp add: addBoolean_def)

text \<open>
  C4. The claim: decoding a flat record with a string other than \<^verbatim>\<open>0\<close> and \<^verbatim>\<open>1\<close> under a
  boolean field raises an error that names the field and the raw value. On the record
  \<^verbatim>\<open>{ aBoolean: 'maybe' }\<close> the converter of \<^verbatim>\<open>part_000\<close> throws an error whose message
  names the value and not the field (\<^verbatim>\<open>stringToBoolean\<close> is not given the field), while
  \<^verbatim>\<open>addBoolean\<close> of \<^verbatim>\<open>hash-converter.ts\<close> names both.
\<close>

theorem C4_error_does_not_name_the_field:
  "HashConverter_toEntityData
     [(''aBoolean'', \<lparr>type = ''boolean'', alias' = None, separator = None\<rparr>)]
     [''aBoolean'' \<mapsto> JSString ''maybe''] =
     Inl (Error (''Non-boolean value of '' @ quote ''maybe'' @
                 '' read from Redis for boolean field.'')) \<and>
   \<not> sublist ''aBoolean''
        (''Non-boolean value of '' @ quote ''maybe'' @ '' read from Redis for boolean field.'') \<and>
   hash_converter_toEntityData
     [(''aBoolean'', \<lparr>type = ''boolean'', alias' = None, separator = None\<rparr>)]
     [''aBoolean'' \<mapsto> JSString ''maybe''] =
     Inl (Error (''Non-boolean value of '' @ quote ''maybe'' @
                 '' read from Redis for boolean field '' @ quote ''aBoolean''))"
  by (simp add: converter_defs sublist_Cons_right prefix_Cons)

section \<open>Chains of calls on a search (C5)\<close>

text \<open>
  \<open>createWhere\<close> reads the schema of the search and nothing else, and returns a leaf
  without operand; a call puts it at the root of an empty search and to the right of the
  root otherwise, and \<open>eq\<close> gives it its operand there.
\<close>

lemma createWhere_leaf:
  "createWhere search field = Inr w \<Longrightarrow> \<exists>cls. w = WhereField cls field None"
  by (auto simp: createWhere_def split: option.splits if_splits)

lemma createWhere_schema:
  "search_schema search' = search_schema search \<Longrightarrow>
   createWhere search' field = createWhere search field"
  by (auto simp: createWhere_def split: option.splits)

lemma leaf_schema:
  assumes "search_schema search' = search_schema search"
  shows "leaf search' c = leaf search c"
  using createWhere_schema [OF assms] by (cases c) simp_all

lemma anyWhereForField_eq:
  assumes "createWhere search field = Inr w0"
  shows "map_sum id (eq x) (anyWhereForField ctor field search) =
           Inr (search\<lparr>rootWhere :=
                  Some (case rootWhere search of
                          None \<Rightarrow> with_operand x w0
                        | Some root \<Rightarrow>
                            with_new_operand x (ctor root w0))\<rparr>)"
proof -
  obtain cls where w0: "w0 = WhereField cls field None"
    using createWhere_leaf [OF assms] by blast
  show ?thesis
    by (cases "rootWhere search") (simp_all add: anyWhereForField_def assms eq_def w0)
qed

lemma call_step_wrap:
  assumes "leaf search c = Inr w"
  shows "call_step c search = Inr (search\<lparr>rootWhere := Some (wrap (rootWhere search) c w)\<rparr>)"
proof (cases c)
  case (Where_eq field x)
  with assms obtain w0 where w0: "createWhere search field = Inr w0" "w = with_operand x w0"
    by (cases "createWhere search field") auto
  show ?thesis
    using anyWhereForField_eq [OF w0(1), of x WhereAnd]
    by (cases "rootWhere search") (simp_all add: Where_eq Search_where_def w0(2))
next
  case (And_eq field x)
  with assms obtain w0 where w0: "createWhere search field = Inr w0" "w = with_operand x w0"
    by (cases "createWhere search field") auto
  show ?thesis
    using anyWhereForField_eq [OF w0(1), of x WhereAnd]
    by (cases "rootWhere search") (simp_all add: And_eq Search_and_def w0(2))
next
  case (Or_eq field x)
  with assms obtain w0 where w0: "createWhere search field = Inr w0" "w = with_operand x w0"
    by (cases "createWhere search field") auto
  show ?thesis
    using anyWhereForField_eq [OF w0(1), of x WhereOr]
    by (cases "rootWhere search") (simp_all add: Or_eq Search_or_def w0(2))
qed

lemma chain_left_to_right:
  assumes "list_all2 (\<lambda>c w. leaf search c = Inr w) calls leaves"
  shows "chain calls search =
           Inr (search\<lparr>rootWhere := left_to_right (rootWhere search) (zip calls leaves)\<rparr>)"
  using assms
proof (induction calls arbitrary: search leaves)
  case Nil
  then show ?case by simp
next
  case (Cons c calls)
  from Cons.prems obtain w ws where leaves: "leaves = w # ws"
    and w: "leaf search c = Inr w"
    and ws: "list_all2 (\<lambda>c w. leaf search c = Inr w) calls ws"
    by (auto simp: list_all2_Cons1)
  define search' where "search' = search\<lparr>rootWhere := Some (wrap (rootWhere search) c w)\<rparr>"
  have step: "call_step c search = Inr search'"
    using call_step_wrap [OF w] by (simp add: search'_def)
  have same: "leaf search' d = leaf search d" for d
    by (rule leaf_schema) (simp add: search'_def)
  have "list_all2 (\<lambda>c w. leaf search' c = Inr w) calls ws"
    using ws by (simp add: same)
  then have "chain calls search' =
      Inr (search'\<lparr>rootWhere := left_to_right (rootWhere search') (zip calls ws)\<rparr>)"
    by (rule Cons.IH)
  then show ?case
    by (simp add: step leaves search'_def)
qed

text \<open>
  C5. A chain of \<^verbatim>\<open>where\<close>, \<^verbatim>\<open>and\<close> and \<^verbatim>\<open>or\<close> calls on declared fields, each with
  its operand, builds the tree from left to right: at each call the previous root becomes the
  left child and the new leaf the right child of a new root, an AND for \<^verbatim>\<open>where\<close> and
  \<^verbatim>\<open>and\<close>, an OR for \<^verbatim>\<open>or\<close>; the query is the rendering of that tree. So
  \<^verbatim>\<open>where("a").eq(1).or("b").eq(2).and("c").eq(3)\<close> has the tree
  \<^verbatim>\<open>And(Or(a, b), c)\<close> and compiles to \<^verbatim>\<open>(({a}=1 OR {b}=2) AND {c}=3)\<close> (the witness).
  The rendering of the nodes is the one modelled from the spec.
\<close>

theorem C5_left_to_right:
  assumes "list_all2 (\<lambda>c w. leaf search c = Inr w) calls leaves"
  shows "chain calls search =
           Inr (search\<lparr>rootWhere := left_to_right (rootWhere search) (zip calls leaves)\<rparr>) \<and>
         map_sum id query (chain calls search) =
           Inr (case left_to_right (rootWhere search) (zip calls leaves) of
                  None \<Rightarrow> ''*''
                | Some root \<Rightarrow> Where_toString root)"
  using chain_left_to_right [OF assms] by (simp add: query_def)

theorem C5_left_to_right_witness:
  "list_all2
     (\<lambda>c w. leaf \<lparr>search_schema =
                    \<lparr>entityCtor_name = ''Foo'',
                     schema_definition =
                       [(''a'', \<lparr>type = ''number'', alias' = None, separator = None\<rparr>),
                        (''b'', \<lparr>type = ''number'', alias' = None, separator = None\<rparr>),
                        (''c'', \<lparr>type = ''number'', alias' = None, separator = None\<rparr>)],
                     options = None\<rparr>,
                  rootWhere = None\<rparr> c = Inr w)
     [Where_eq ''a'' ''1'', Or_eq ''b'' ''2'', And_eq ''c'' ''3'']
     [WhereField ''WhereNumber'' ''a'' (Some ''1''), WhereField ''WhereNumber'' ''b'' (Some ''2''),
      WhereField ''WhereNumber'' ''c'' (Some ''3'')] \<and>
   map_sum id rootWhere
     (chain [Where_eq ''a'' ''1'', Or_eq ''b'' ''2'', And_eq ''c'' ''3'']
        \<lparr>search_schema =
           \<lparr>entityCtor_name = ''Foo'',
            schema_definition =
              [(''a'', \<lparr>type = ''number'', alias' = None, separator = None\<rparr>),
               (''b'', \<lparr>type = ''number'', alias' = None, separator = None\<rparr>),
               (''c'', \<lparr>type = ''number'', alias' = None, separator = None\<rparr>)],
            options = None\<rparr>,
         rootWhere = None\<rparr>) =
     Inr (Some (WhereAnd
                  (WhereOr (WhereField ''WhereNumber'' ''a'' (Some ''1''))
                           (WhereField ''WhereNumber'' ''b'' (Some ''2'')))
                  (WhereField ''WhereNumber'' ''c'' (Some ''3'')))) \<and>
   map_sum id query
     (chain [Where_eq ''a'' ''1'', Or_eq ''b'' ''2'', And_eq ''c'' ''3'']
        \<lparr>search_schema =
           \<lparr>entityCtor_name = ''Foo'',
            schema_definition =
              [(''a'', \<lparr>type = ''number'', alias' = None, separator = None\<rparr>),
               (''b'', \<lparr>type = ''number'', alias' = None, separator = None\<rparr>),
               (''c'', \<lparr>type = ''number'', alias' = None, separator = None\<rparr>)],
            options = None\<rparr>,
         rootWhere = None\<rparr>) =
     Inr ''(({a}=1 OR {b}=2) AND {c}=3)''"
proof -
  let ?S = "\<lparr>search_schema =
           \<lparr>entityCtor_name = ''Foo'',
            schema_definition =
              [(''a'', \<lparr>type = ''number'', alias' = None, separator = None\<rparr>),
               (''b'', \<lparr>type = ''number'', alias' = None, separator = None\<rparr>),
               (''c'', \<lparr>type = ''number'', alias' = None, separator = None\<rparr>)],
            options = None\<rparr>,
         rootWhere = None\<rparr>"
  let ?calls = "[Where_eq ''a'' ''1'', Or_eq ''b'' ''2'', And_eq ''c'' ''3'']"
  let ?leaves = "[WhereField ''WhereNumber'' ''a'' (Some ''1''),
                  WhereField ''WhereNumber'' ''b'' (Some ''2''),
                  WhereField ''WhereNumber'' ''c'' (Some ''3'')]"
  let ?root = "WhereAnd
                  (WhereOr (WhereField ''WhereNumber'' ''a'' (Some ''1''))
                           (WhereField ''WhereNumber'' ''b'' (Some ''2'')))
                  (WhereField ''WhereNumber'' ''c'' (Some ''3''))"
  have h: "list_all2 (\<lambda>c w. leaf ?S c = Inr w) ?calls ?leaves"
    by (simp add: createWhere_def)
  have lr: "left_to_right (rootWhere ?S) (zip ?calls ?leaves) = Some ?root"
    by simp
  note law = C5_left_to_right [OF h, unfolded lr]
  have c: "chain ?calls ?S = Inr (?S\<lparr>rootWhere := Some ?root\<rparr>)"
    using law by (rule conjunct1)
  have "map_sum id query (chain ?calls ?S) =
          Inr (case Some ?root of None \<Rightarrow> ''*'' | Some root \<Rightarrow> Where_toString root)"
    using law by (rule conjunct2)
  then have q: "map_sum id query (chain ?calls ?S) = Inr (Where_toString ?root)"
    by (simp only: option.case)
  have r: "map_sum id rootWhere (chain ?calls ?S) = Inr (Some ?root)"
    unfolding c by simp
  have t: "Where_toString ?root = ''(({a}=1 OR {b}=2) AND {c}=3)''"
    by simp
  show ?thesis
    by (rule conjI [OF h conjI [OF r q [unfolded t]]])
qed

section \<open>The example of a point (C2)\<close>

text \<open>
  The claim: the point \<^verbatim>\<open>{ longitude: -122.27, latitude: 37.80 }\<close> encodes to the string
  \<^verbatim>\<open>-122.27,37.80\<close>. The number 37.80 is the number 37.8, and \<^verbatim>\<open>pointToString\<close> prints it
  with the template literal, as the digits \<^verbatim>\<open>37.8\<close>: the encoded string is another one.
  (\<open>decimal 3780 (- 2)\<close> is the number that the literal \<^verbatim>\<open>37.80\<close> denotes.)
\<close>

theorem C2_point_example_counterexample:
  "convert2 (toHashConverters ''point'')
     (Point (JSNumber (decimal (- 12227) (- 2))) (JSNumber (decimal 3780 (- 2))))
     \<lparr>type = ''point'', alias' = None, separator = None\<rparr> \<noteq>
   Inr (JSString ''-122.27,37.80'')"
  by (simp add: converter_defs number_defs Point_def)

text \<open>
  C2, as amended. In both encodings the point \<^verbatim>\<open>{ longitude: -122.27, latitude: 37.80 }\<close>
  encodes to the string \<^verbatim>\<open>-122.27,37.8\<close>, and decoding that string, as well as decoding the
  string \<^verbatim>\<open>-122.27,37.80\<close>, yields the point again.
\<close>

theorem C2_point_example:
  "convert2 (toHashConverters ''point'')
     (Point (JSNumber (decimal (- 12227) (- 2))) (JSNumber (decimal 3780 (- 2)))) fieldDef =
     Inr (JSString ''-122.27,37.8'') \<and>
   convert1 (toJsonConverters ''point'')
     (Point (JSNumber (decimal (- 12227) (- 2))) (JSNumber (decimal 3780 (- 2)))) =
     Inr (JSString ''-122.27,37.8'') \<and>
   convert2 (fromHashConverters ''point'') (JSString ''-122.27,37.8'') fieldDef =
     Inr (Point (JSNumber (decimal (- 12227) (- 2))) (JSNumber (decimal 3780 (- 2)))) \<and>
   convert1 (fromJsonConverters ''point'') (JSString ''-122.27,37.8'') =
     Inr (Point (JSNumber (decimal (- 12227) (- 2))) (JSNumber (decimal 3780 (- 2)))) \<and>
   convert2 (fromHashConverters ''point'') (JSString ''-122.27,37.80'') fieldDef =
     Inr (Point (JSNumber (decimal (- 12227) (- 2))) (JSNumber (decimal 3780 (- 2)))) \<and>
   convert1 (fromJsonConverters ''point'') (JSString ''-122.27,37.80'') =
     Inr (Point (JSNumber (decimal (- 12227) (- 2))) (JSNumber (decimal 3780 (- 2))))"
  by (simp add: converter_defs number_defs Point_def element_def split_def)

section \<open>Lenient parsing of numbers and dates (C10)\<close>




section \<open>The index declaration of a string array (C7)\<close>

text \<open>
  C7. In the structured (JSON) encoding, a schema whose only field is a string array yields
  exactly one declaration: the path is the alias path with the element wildcard \<^verbatim>\<open>[*]\<close>
  appended, then \<^verbatim>\<open>AS\<close> and the alias, then the search type \<^verbatim>\<open>TAG\<close>, and nothing after it:
  no \<^verbatim>\<open>SEPARATOR\<close> option, whatever the separator of the field is.
\<close>

theorem C7_json_string_array_declaration:
  assumes "dataStructure schema = ''JSON''"
    and "schema_definition schema = [(field, fieldDef)]"
    and "type fieldDef = ''string[]''"
  shows "redisSchema schema =
           Inr [''$.'' @ nullish (alias' fieldDef) field @ ''[*]'', ''AS'',
                nullish (alias' fieldDef) field, ''TAG'']"
  using assms by (simp add: redisSchema_def buildJsonSchema_def buildJsonSchemaEntry_def Let_def)

theorem C7_json_string_array_declaration_witness:
  "redisSchema \<lparr>entityCtor_name = ''Foo'',
                 schema_definition =
                   [(''tags'', \<lparr>type = ''string[]'', alias' = None, separator = None\<rparr>)],
                 options = None\<rparr> =
     Inr [''$.tags[*]'', ''AS'', ''tags'', ''TAG'']"
  using C7_json_string_array_declaration
    [of "\<lparr>entityCtor_name = ''Foo'',
          schema_definition =
            [(''tags'', \<lparr>type = ''string[]'', alias' = None, separator = None\<rparr>)],
          options = None\<rparr>"
        "''tags''" "\<lparr>type = ''string[]'', alias' = None, separator = None\<rparr>"]
  by (simp add: dataStructure_def nullish_def)

end
